theory Spec2Isabelle
  imports Complex_Main "HOL-Library.Monad_Syntax"
begin

section \<open>The crane controller of \<^verbatim>\<open>src/crane.py\<close>\<close>

text \<open>
  The class \<^verbatim>\<open>Crane\<close> maps six tracked skeleton points to joint angles of
  Baxter's right arm and to an open/close command of the right gripper. The embedding
  follows the Python text method by method.

  \<^item> Python floats are modelled as \<^typ>\<open>real\<close>: comparison, negation and the
    literals are exact in both, rounding of \<^verbatim>\<open>theta - math.pi/4\<close> and NaN are
    outside the model. \<^verbatim>\<open>math.pow\<close> raises on overflow, and so it does in the model.
  \<^item> A call that raises is the value \<^const>\<open>None\<close>; everything else is
    \<^const>\<open>Some\<close> of the result.
  \<^item> Every method takes \<^verbatim>\<open>self\<close> and returns it, updated where the method assigns
    to it or commands the gripper.
  \<^item> \<^verbatim>\<open>rospy.logdebug\<close> only writes to the log and is left out.
\<close>

subsection \<open>Data\<close>

text \<open>A tracked point: an object with numeric attributes \<^verbatim>\<open>x\<close>, \<^verbatim>\<open>y\<close>, \<^verbatim>\<open>z\<close>.\<close>

record point =
  pt_x :: real
  pt_y :: real
  pt_z :: real

text \<open>Vectors are passed as Python lists, such as \<^verbatim>\<open>[0,0,-1]\<close>.\<close>

type_synonym vector = "real list"

text \<open>
  The module \<^verbatim>\<open>vector_operations\<close> is imported by \<^verbatim>\<open>crane.py\<close> and is not part
  of the sources at hand. Its four functions are parameters of the model: pure functions
  of their arguments that may raise (division by a zero length, for instance).
\<close>

record vector_operations =
  make_vector_from_POINTS :: "point \<Rightarrow> point \<Rightarrow> vector option"
  angle_between_vectors :: "vector \<Rightarrow> vector \<Rightarrow> real option"
  vector_projection_onto_plane :: "vector \<Rightarrow> vector \<Rightarrow> vector \<Rightarrow> vector option"
  shortest_vector_from_point_to_vector ::
    "point \<Rightarrow> vector \<Rightarrow> vector \<Rightarrow> point \<Rightarrow> vector option"

text \<open>
  \<^verbatim>\<open>baxter_interface.Limb\<close> is an external class; the controller only calls
  \<^verbatim>\<open>joint_names()\<close> on it, which is a parameter as well.
\<close>

record limb =
  joint_names :: "string list"

text \<open>
  \<^verbatim>\<open>baxter_interface.Gripper\<close> is external too; what the controller does to it is
  the sequence of \<^verbatim>\<open>close()\<close> and \<^verbatim>\<open>open()\<close> calls, oldest first.
\<close>

datatype gripper_command = Close | Open

record crane =
  arm :: limb
  gripper :: "gripper_command list"
  neutral_position :: "string \<rightharpoonup> real"
  crane_l_angles :: "string \<rightharpoonup> real"
  gripper_state :: bool
  gripper_state_timer :: int

subsection \<open>Python built-ins\<close>

text \<open>\<^verbatim>\<open>dict(pairs)\<close> stores the pairs in order, so that a later pair wins.\<close>

definition dict :: "('k \<times> 'v) list \<Rightarrow> ('k \<rightharpoonup> 'v)" where
  "dict kvs = foldl (\<lambda>m (k, v). m(k \<mapsto> v)) Map.empty kvs"

text \<open>\<^verbatim>\<open>xs[i]\<close> for a literal index \<open>i \<ge> 0\<close>; out of range it raises IndexError.\<close>

definition index :: "'a list \<Rightarrow> nat \<Rightarrow> 'a option" where
  "index xs i = (if i < length xs then Some (xs ! i) else None)"

subsection \<open>The methods of \<^verbatim>\<open>Crane\<close>\<close>

text \<open>
  \<^verbatim>\<open>__init__\<close>: the limb is what \<^verbatim>\<open>baxter_interface.Limb('right')\<close> returns; no
  command has been sent to the gripper yet.
\<close>

definition Crane_init :: "limb \<Rightarrow> crane" where
  "Crane_init right_limb =
     \<lparr> arm = right_limb,
       gripper = [],
       neutral_position =
         dict (zip (joint_names right_limb) [0.00, 0.00, 1.57, 0.00, 0.00, 0.00, 0.00]),
       crane_l_angles =
         dict [(''left_s0'', 0.35), (''left_s1'', 0.00),
               (''left_e0'', 0.00), (''left_e1'', 1.57),
               (''left_w0'', 0.00), (''left_w1'', 0.00),
               (''left_w2'', 0.00)],
       gripper_state = True,
       gripper_state_timer = 0 \<rparr>"

text \<open>
  \<^verbatim>\<open>check_angles\<close> appends to the list it is given; the model returns the extended
  list.
\<close>

definition check_angles ::
  "crane \<Rightarrow> real \<Rightarrow> real \<Rightarrow> real \<Rightarrow> real \<Rightarrow> real \<Rightarrow> real \<Rightarrow> real \<Rightarrow> real list
     \<Rightarrow> crane \<times> real list" where
  "check_angles self s0 s1 e0 e1 w0 w1 w2 angles =
     (let angles =
            (if - 0.25 < s0 \<and> s0 < 1.60 then angles @ [s0]
             else if - 0.25 < s0 then angles @ [1.60]
             else angles @ [- 0.25]);
          angles =
            (if - 2.00 < s1 \<and> s1 < 0.90 then angles @ [s1]
             else if - 2.00 < s1 then angles @ [0.90]
             else angles @ [- 2.00]);
          angles = angles @ [e0];
          angles =
            (if 0.10 < e1 \<and> e1 < 2.50 then angles @ [e1]
             else if 0.10 < e1 then angles @ [2.50]
             else angles @ [0.10])
      in (self, angles @ [w0, w1, w2]))"

text \<open>
  \<^verbatim>\<open>human_to_baxter\<close> returns the flag for the gripper; the list \<^verbatim>\<open>a\<close> it fills
  in place is returned with it.
\<close>

definition human_to_baxter ::
  "vector_operations \<Rightarrow> crane \<Rightarrow> point \<Rightarrow> point \<Rightarrow> point \<Rightarrow> point \<Rightarrow> point \<Rightarrow> point
     \<Rightarrow> real list \<Rightarrow> (crane \<times> bool \<times> real list) option" where
  "human_to_baxter vo self l_sh l_el l_ha r_sh r_el r_ha a =
     do {
       l_upper_arm \<leftarrow> make_vector_from_POINTS vo l_sh l_el;
       l_forearm \<leftarrow> make_vector_from_POINTS vo l_el l_ha;
       v_xz \<leftarrow> vector_projection_onto_plane vo l_upper_arm [0, 0, - 1] [- 1, 0, 0];
       theta \<leftarrow> angle_between_vectors vo v_xz [- 1, 0, 0];
       let s0 = theta - pi / 4;
       theta \<leftarrow> angle_between_vectors vo l_upper_arm v_xz;
       let s1 = (if pt_y l_el > pt_y l_sh then theta else - theta);
       n_upper_arm \<leftarrow>
         shortest_vector_from_point_to_vector vo l_ha l_upper_arm l_forearm l_sh;
       theta \<leftarrow> angle_between_vectors vo n_upper_arm [0, 1, 0];
       let e0 = theta;
       theta \<leftarrow> angle_between_vectors vo l_upper_arm l_forearm;
       let e1 = theta;
       let w0 = - 1.57;
       let w1 = 0.00;
       let w2 = - 0.30;
       let (self, a) = check_angles self s0 s1 e0 e1 w0 w1 w2 a;
       r_upper_arm \<leftarrow> make_vector_from_POINTS vo r_sh r_el;
       r_forearm \<leftarrow> make_vector_from_POINTS vo r_el r_ha;
       theta \<leftarrow> angle_between_vectors vo r_upper_arm r_forearm;
       if theta > 0.8 then Some (self, True, a) else Some (self, False, a)
     }"

text \<open>
  The first part of \<^verbatim>\<open>human_to_baxter\<close> (the lines under \<^verbatim>\<open># Crane Arm\<close>, up to
  the call of \<^verbatim>\<open>check_angles\<close>) on its own: the seven angles as they are passed to
  \<^verbatim>\<open>check_angles\<close>, before any clamping.
\<close>

definition crane_arm_angles ::
  "vector_operations \<Rightarrow> point \<Rightarrow> point \<Rightarrow> point
     \<Rightarrow> (real \<times> real \<times> real \<times> real \<times> real \<times> real \<times> real) option" where
  "crane_arm_angles vo l_sh l_el l_ha =
     do {
       l_upper_arm \<leftarrow> make_vector_from_POINTS vo l_sh l_el;
       l_forearm \<leftarrow> make_vector_from_POINTS vo l_el l_ha;
       v_xz \<leftarrow> vector_projection_onto_plane vo l_upper_arm [0, 0, - 1] [- 1, 0, 0];
       theta \<leftarrow> angle_between_vectors vo v_xz [- 1, 0, 0];
       let s0 = theta - pi / 4;
       theta \<leftarrow> angle_between_vectors vo l_upper_arm v_xz;
       let s1 = (if pt_y l_el > pt_y l_sh then theta else - theta);
       n_upper_arm \<leftarrow>
         shortest_vector_from_point_to_vector vo l_ha l_upper_arm l_forearm l_sh;
       theta \<leftarrow> angle_between_vectors vo n_upper_arm [0, 1, 0];
       let e0 = theta;
       theta \<leftarrow> angle_between_vectors vo l_upper_arm l_forearm;
       let e1 = theta;
       let w0 = - 1.57;
       let w1 = 0.00;
       let w2 = - 0.30;
       Some (s0, s1, e0, e1, w0, w1, w2)
     }"

text \<open>
  \<^verbatim>\<open>desired_joint_vals\<close> returns the dictionary of all joints; the model returns
  the controller with it, since the gripper has been commanded.
\<close>

definition desired_joint_vals ::
  "vector_operations \<Rightarrow> crane \<Rightarrow> point \<Rightarrow> point \<Rightarrow> point \<Rightarrow> point \<Rightarrow> point \<Rightarrow> point
     \<Rightarrow> (crane \<times> (string \<rightharpoonup> real)) option" where
  "desired_joint_vals vo self left_shoulder left_elbow left_hand
       right_shoulder right_elbow right_hand =
     do {
       let angles = [];
       (self, close, angles) \<leftarrow>
         human_to_baxter vo self left_shoulder left_elbow left_hand
           right_shoulder right_elbow right_hand angles;
       let self = (if close then self\<lparr>gripper := gripper self @ [Close]\<rparr>
                   else self\<lparr>gripper := gripper self @ [Open]\<rparr>);
       a0 \<leftarrow> index angles 0;
       a1 \<leftarrow> index angles 1;
       a2 \<leftarrow> index angles 2;
       a3 \<leftarrow> index angles 3;
       a4 \<leftarrow> index angles 4;
       a5 \<leftarrow> index angles 5;
       a6 \<leftarrow> index angles 6;
       let r_positions = dict (zip (joint_names (arm self)) [a0, a1, a2, a3, a4, a5, a6]);
       Some (self, crane_l_angles self ++ r_positions)
     }"

text \<open>
  \<^verbatim>\<open>math.pow(x, n)\<close> with a literal exponent: on finite arguments it raises
  OverflowError when the power is too large for a double, which is when it rounds to
  infinity. With reals for floats, that is from \<open>2 ^ 1024 - 2 ^ 970\<close> on, halfway
  between the largest double and \<open>2 ^ 1024\<close>.
\<close>

definition overflow_threshold :: real where
  "overflow_threshold = 2 ^ 1024 - 2 ^ 970"

definition math_pow :: "real \<Rightarrow> nat \<Rightarrow> real option" where
  "math_pow x n = (if overflow_threshold \<le> \<bar>x ^ n\<bar> then None else Some (x ^ n))"

text \<open>
  \<^verbatim>\<open>desired_pose_vals\<close> first computes the length of the arm, and raises if one of
  the six squares overflows. \<^verbatim>\<open>math.sqrt\<close> is applied to a sum of squares only and
  does not raise. The pose is built before the gripper part runs and is returned after it.
\<close>

definition desired_pose_vals ::
  "vector_operations \<Rightarrow> crane \<Rightarrow> point \<Rightarrow> point \<Rightarrow> point \<Rightarrow> point \<Rightarrow> point \<Rightarrow> point
     \<Rightarrow> point \<Rightarrow> (crane \<times> (string \<rightharpoonup> real)) option" where
  "desired_pose_vals vo self left_shoulder left_elbow left_hand
       right_shoulder right_elbow right_hand torso =
     do {
       upper_x \<leftarrow> math_pow (pt_x left_shoulder - pt_x left_elbow) 2;
       upper_y \<leftarrow> math_pow (pt_y left_shoulder - pt_y left_elbow) 2;
       upper_z \<leftarrow> math_pow (pt_z left_shoulder - pt_z left_elbow) 2;
       fore_x \<leftarrow> math_pow (pt_x left_elbow - pt_x left_hand) 2;
       fore_y \<leftarrow> math_pow (pt_y left_elbow - pt_y left_hand) 2;
       fore_z \<leftarrow> math_pow (pt_z left_elbow - pt_z left_hand) 2;
       let arm_length = sqrt (upper_x + upper_y + upper_z) + sqrt (fore_x + fore_y + fore_z);
       let RJ_ARM_LENGTH = (41 * 2.54 / 100.0 :: real);
       let scaling = 1.0;
       let x = (pt_z torso - pt_z left_hand) * scaling + 0.2;
       let y = (pt_x left_hand - pt_x torso) * scaling;
       let z = (pt_y torso - pt_y left_hand) * scaling - 0.3;
       let roll = 0;
       let pitch = pi;
       let yaw = 0;
       let pose = dict [(''x'', x), (''y'', y), (''z'', z),
                        (''roll'', roll), (''pitch'', pitch), (''yaw'', yaw)];
       r_upper_arm \<leftarrow> make_vector_from_POINTS vo right_shoulder right_elbow;
       r_forearm \<leftarrow> make_vector_from_POINTS vo right_elbow right_hand;
       theta \<leftarrow> angle_between_vectors vo r_upper_arm r_forearm;
       let self = (if theta > 0.8 then self\<lparr>gripper := gripper self @ [Close]\<rparr>
                   else self\<lparr>gripper := gripper self @ [Open]\<rparr>);
       Some (self, pose)
     }"

text \<open>
  The first statement of \<^verbatim>\<open>desired_pose_vals\<close> on its own: the length of the arm,
  or the exception.
\<close>

definition arm_length :: "point \<Rightarrow> point \<Rightarrow> point \<Rightarrow> real option" where
  "arm_length left_shoulder left_elbow left_hand =
     do {
       upper_x \<leftarrow> math_pow (pt_x left_shoulder - pt_x left_elbow) 2;
       upper_y \<leftarrow> math_pow (pt_y left_shoulder - pt_y left_elbow) 2;
       upper_z \<leftarrow> math_pow (pt_z left_shoulder - pt_z left_elbow) 2;
       fore_x \<leftarrow> math_pow (pt_x left_elbow - pt_x left_hand) 2;
       fore_y \<leftarrow> math_pow (pt_y left_elbow - pt_y left_hand) 2;
       fore_z \<leftarrow> math_pow (pt_z left_elbow - pt_z left_hand) 2;
       Some (sqrt (upper_x + upper_y + upper_z) + sqrt (fore_x + fore_y + fore_z))
     }"

subsection \<open>States the controller can be in\<close>

text \<open>
  The controller is constructed once and then receives per-frame calls in any order.
  A call that raises does so before it has touched \<^verbatim>\<open>self\<close>, so only calls
  that return lead to a new state.
\<close>

inductive reachable :: "vector_operations \<Rightarrow> limb \<Rightarrow> crane \<Rightarrow> bool"
  for vo :: vector_operations and right_limb :: limb where
  constructed: "reachable vo right_limb (Crane_init right_limb)"
| after_desired_joint_vals:
    "reachable vo right_limb self \<Longrightarrow>
     desired_joint_vals vo self left_shoulder left_elbow left_hand
       right_shoulder right_elbow right_hand = Some (self', positions) \<Longrightarrow>
     reachable vo right_limb self'"
| after_desired_pose_vals:
    "reachable vo right_limb self \<Longrightarrow>
     desired_pose_vals vo self left_shoulder left_elbow left_hand
       right_shoulder right_elbow right_hand torso = Some (self', pose) \<Longrightarrow>
     reachable vo right_limb self'"
| after_human_to_baxter:
    "reachable vo right_limb self \<Longrightarrow>
     human_to_baxter vo self l_sh l_el l_ha r_sh r_el r_ha a = Some (self', close, a') \<Longrightarrow>
     reachable vo right_limb self'"
| after_check_angles:
    "reachable vo right_limb self \<Longrightarrow>
     check_angles self s0 s1 e0 e1 w0 w1 w2 angles = (self', angles') \<Longrightarrow>
     reachable vo right_limb self'"

subsection \<open>An instance of the missing modules\<close>

text \<open>
  The theorems below hold for every \<^typ>\<open>vector_operations\<close> and every
  \<^typ>\<open>limb\<close>. To run the controller on concrete points, the four vector functions are
  given here as the specification describes them.
\<close>

definition dot :: "vector \<Rightarrow> vector \<Rightarrow> real" where
  "dot a b = sum_list (map2 (*) a b)"

text \<open>
  Modelled from the spec: \<^verbatim>\<open>vector_operations.make_vector_from_POINTS\<close> is missing;
  the specification's \<^verbatim>\<open>vectorFromPoints(tail, head)\<close> returns head minus tail
  componentwise and has no error condition.
\<close>

definition vectorFromPoints :: "point \<Rightarrow> point \<Rightarrow> vector option" where
  "vectorFromPoints tail head =
     Some [pt_x head - pt_x tail, pt_y head - pt_y tail, pt_z head - pt_z tail]"

text \<open>
  Modelled from the spec: \<^verbatim>\<open>vector_operations.angle_between_vectors\<close> is missing;
  the specification's \<^verbatim>\<open>angleBetween(a, b)\<close> is the arc cosine of the dot product
  over the product of the lengths, the ratio clamped to the domain of the arc cosine, and
  it fails when either vector has length zero.
\<close>

definition angleBetween :: "vector \<Rightarrow> vector \<Rightarrow> real option" where
  "angleBetween a b =
     (if sqrt (dot a a) = 0 \<or> sqrt (dot b b) = 0 then None
      else Some (arccos (max (- 1) (min 1 (dot a b / (sqrt (dot a a) * sqrt (dot b b)))))))"

text \<open>
  Modelled from the spec: \<^verbatim>\<open>vector_operations.vector_projection_onto_plane\<close> is
  missing; the specification's \<^verbatim>\<open>projectOntoPlane(v, planeNormal, referenceAxis)\<close>
  removes the component of \<open>v\<close> along the normal. What the reference axis contributes
  is not said; it is not used here.
\<close>

definition projectOntoPlane :: "vector \<Rightarrow> vector \<Rightarrow> vector \<Rightarrow> vector option" where
  "projectOntoPlane v planeNormal referenceAxis =
     (if dot planeNormal planeNormal = 0 then None
      else Some (map2 (-) v
                  (map (\<lambda>c. dot v planeNormal / dot planeNormal planeNormal * c) planeNormal)))"

text \<open>
  Modelled from the spec: \<^verbatim>\<open>vector_operations.shortest_vector_from_point_to_vector\<close>
  is missing; the specification's
  \<^verbatim>\<open>shortestVectorPointToLine(point, lineDir, otherDir, lineOrigin)\<close> is the
  perpendicular from the point to the line through the origin along the direction.
  \<open>otherDir\<close> only matters for degenerate geometry and is not used here.
\<close>

definition shortestVectorPointToLine ::
  "point \<Rightarrow> vector \<Rightarrow> vector \<Rightarrow> point \<Rightarrow> vector option" where
  "shortestVectorPointToLine p lineDir otherDir lineOrigin =
     (if dot lineDir lineDir = 0 then None
      else
        let w = [pt_x p - pt_x lineOrigin, pt_y p - pt_y lineOrigin, pt_z p - pt_z lineOrigin];
            t = dot w lineDir / dot lineDir lineDir
        in Some (map2 (-) (map (\<lambda>c. t * c) lineDir) w))"

definition VectorGeometry :: vector_operations where
  "VectorGeometry =
     \<lparr> make_vector_from_POINTS = vectorFromPoints,
       angle_between_vectors = angleBetween,
       vector_projection_onto_plane = projectOntoPlane,
       shortest_vector_from_point_to_vector = shortestVectorPointToLine \<rparr>"

text \<open>
  The joint names of Baxter's right limb, in the order the robot's interface lists them.
\<close>

definition baxter_right_limb :: limb where
  "baxter_right_limb =
     \<lparr> joint_names = [''right_s0'', ''right_s1'', ''right_e0'', ''right_e1'',
                      ''right_w0'', ''right_w1'', ''right_w2''] \<rparr>"

definition pt :: "real \<Rightarrow> real \<Rightarrow> real \<Rightarrow> point" where
  "pt a b c = \<lparr> pt_x = a, pt_y = b, pt_z = c \<rparr>"

section \<open>Properties\<close>

subsection \<open>Python built-ins\<close>

lemma foldl_upd_map_of:
  "foldl (\<lambda>m (k, v). m(k \<mapsto> v)) m kvs = m ++ map_of (rev kvs)"
  by (induction kvs arbitrary: m) (auto simp: map_add_def fun_eq_iff split: option.splits)

lemma dict_map_of: "dict kvs = map_of (rev kvs)"
  by (simp add: dict_def foldl_upd_map_of)

lemma map_of_rev_distinct:
  assumes "distinct (map fst kvs)"
  shows "map_of (rev kvs) = map_of kvs"
proof -
  have "distinct (map fst (rev kvs))"
    using assms by (simp add: rev_map [symmetric])
  moreover have "set (rev kvs) = set kvs" by simp
  ultimately show ?thesis
    using assms by (simp add: map_of_inject_set)
qed

lemma dict_zip_nth:
  assumes "distinct ks" and "length ks = length vs" and "i < length vs"
  shows "dict (zip ks vs) (ks ! i) = Some (vs ! i)"
proof -
  have "distinct (map fst (zip ks vs))"
    using assms by simp
  then have "dict (zip ks vs) = map_of (zip ks vs)"
    by (simp only: dict_map_of map_of_rev_distinct)
  then show ?thesis
    using assms by (simp add: map_of_zip_nth)
qed

lemma dict_zip_None:
  assumes "k \<notin> set ks"
  shows "dict (zip ks vs) k = None"
proof -
  have "k \<notin> fst ` set (rev (zip ks vs))"
    using assms by (auto dest: set_zip_leftD)
  then show ?thesis
    by (simp add: dict_map_of map_of_eq_None_iff del: set_rev)
qed

lemma map_add_dict_zip_other:
  assumes "k \<notin> set ks"
  shows "(m ++ dict (zip ks vs)) k = m k"
  using dict_zip_None [OF assms, of vs] by (simp add: map_add_def)

subsection \<open>\<^verbatim>\<open>check_angles\<close>\<close>

lemma check_angles_fst: "fst (check_angles self s0 s1 e0 e1 w0 w1 w2 angles) = self"
  by (simp add: check_angles_def Let_def)

lemma check_angles_snd:
  "snd (check_angles self s0 s1 e0 e1 w0 w1 w2 angles) =
     angles @
     [if - 0.25 < s0 \<and> s0 < 1.60 then s0 else if - 0.25 < s0 then 1.60 else - 0.25,
      if - 2.00 < s1 \<and> s1 < 0.90 then s1 else if - 2.00 < s1 then 0.90 else - 2.00,
      e0,
      if 0.10 < e1 \<and> e1 < 2.50 then e1 else if 0.10 < e1 then 2.50 else 0.10,
      w0, w1, w2]"
  by (simp add: check_angles_def Let_def)

lemma check_angles_pair:
  "check_angles self s0 s1 e0 e1 w0 w1 w2 angles =
     (self, snd (check_angles self s0 s1 e0 e1 w0 w1 w2 angles))"
  by (simp add: prod_eq_iff check_angles_fst)

text \<open>
  One axis of \<^const>\<open>check_angles\<close>: the three-way choice saturates at the bounds.
\<close>

lemma saturate:
  fixes v lo hi :: real
  assumes "lo < hi"
  shows "lo \<le> (if lo < v \<and> v < hi then v else if lo < v then hi else lo) \<and>
         (if lo < v \<and> v < hi then v else if lo < v then hi else lo) \<le> hi \<and>
         (lo < v \<and> v < hi \<longrightarrow>
            (if lo < v \<and> v < hi then v else if lo < v then hi else lo) = v) \<and>
         (hi \<le> v \<longrightarrow> (if lo < v \<and> v < hi then v else if lo < v then hi else lo) = hi) \<and>
         (v \<le> lo \<longrightarrow> (if lo < v \<and> v < hi then v else if lo < v then hi else lo) = lo)"
  using assms by auto

subsection \<open>\<^verbatim>\<open>human_to_baxter\<close>, \<^verbatim>\<open>desired_joint_vals\<close>, \<^verbatim>\<open>desired_pose_vals\<close>\<close>

text \<open>
  \<^const>\<open>human_to_baxter\<close> computes the seven angles of \<^const>\<open>crane_arm_angles\<close>,
  passes them to \<^const>\<open>check_angles\<close> and then decides on the gripper.
\<close>

lemma human_to_baxter_split:
  "human_to_baxter vo self l_sh l_el l_ha r_sh r_el r_ha a =
     do {
       (s0, s1, e0, e1, w0, w1, w2) \<leftarrow> crane_arm_angles vo l_sh l_el l_ha;
       let (self, a) = check_angles self s0 s1 e0 e1 w0 w1 w2 a;
       r_upper_arm \<leftarrow> make_vector_from_POINTS vo r_sh r_el;
       r_forearm \<leftarrow> make_vector_from_POINTS vo r_el r_ha;
       theta \<leftarrow> angle_between_vectors vo r_upper_arm r_forearm;
       if theta > 0.8 then Some (self, True, a) else Some (self, False, a)
     }"
  by (simp add: human_to_baxter_def crane_arm_angles_def Let_def)

lemma crane_arm_angles_Some:
  assumes "make_vector_from_POINTS vo l_sh l_el = Some l_upper_arm"
    and "make_vector_from_POINTS vo l_el l_ha = Some l_forearm"
    and "vector_projection_onto_plane vo l_upper_arm [0, 0, - 1] [- 1, 0, 0] = Some v_xz"
    and "angle_between_vectors vo v_xz [- 1, 0, 0] = Some t0"
    and "angle_between_vectors vo l_upper_arm v_xz = Some t1"
    and "shortest_vector_from_point_to_vector vo l_ha l_upper_arm l_forearm l_sh
           = Some n_upper_arm"
    and "angle_between_vectors vo n_upper_arm [0, 1, 0] = Some t2"
    and "angle_between_vectors vo l_upper_arm l_forearm = Some t3"
  shows "crane_arm_angles vo l_sh l_el l_ha =
           Some (t0 - pi / 4, if pt_y l_el > pt_y l_sh then t1 else - t1, t2, t3,
                 - 1.57, 0.00, - 0.30)"
  using assms by (simp add: crane_arm_angles_def)

lemma crane_arm_angles_wrist:
  assumes "crane_arm_angles vo l_sh l_el l_ha = Some (s0, s1, e0, e1, w0, w1, w2)"
  shows "w0 = - 1.57 \<and> w1 = 0.00 \<and> w2 = - 0.30"
  using assms
  by (auto simp: crane_arm_angles_def Let_def bind_eq_Some_conv)

lemma human_to_baxter_Some:
  assumes "crane_arm_angles vo l_sh l_el l_ha = Some (s0, s1, e0, e1, w0, w1, w2)"
    and "make_vector_from_POINTS vo r_sh r_el = Some r_upper_arm"
    and "make_vector_from_POINTS vo r_el r_ha = Some r_forearm"
    and "angle_between_vectors vo r_upper_arm r_forearm = Some theta"
  shows "human_to_baxter vo self l_sh l_el l_ha r_sh r_el r_ha a =
           Some (self, theta > 0.8, snd (check_angles self s0 s1 e0 e1 w0 w1 w2 a))"
  using assms
  by (simp add: human_to_baxter_split case_prod_beta check_angles_fst)

lemma human_to_baxter_SomeD:
  assumes "human_to_baxter vo self l_sh l_el l_ha r_sh r_el r_ha a = Some (self', close, a')"
  shows "\<exists>s0 s1 e0 e1 w0 w1 w2 r_upper_arm r_forearm theta.
    crane_arm_angles vo l_sh l_el l_ha = Some (s0, s1, e0, e1, w0, w1, w2) \<and>
    make_vector_from_POINTS vo r_sh r_el = Some r_upper_arm \<and>
    make_vector_from_POINTS vo r_el r_ha = Some r_forearm \<and>
    angle_between_vectors vo r_upper_arm r_forearm = Some theta \<and>
    self' = self \<and> close = (theta > 0.8) \<and>
    a' = snd (check_angles self s0 s1 e0 e1 w0 w1 w2 a)"
  using assms
  by (auto simp: human_to_baxter_split case_prod_beta check_angles_fst bind_eq_Some_conv
      split: if_splits)

lemma human_to_baxter_length:
  assumes "human_to_baxter vo self l_sh l_el l_ha r_sh r_el r_ha a = Some (self', close, a')"
  shows "length a' = length a + 7"
  using human_to_baxter_SomeD [OF assms] by (auto simp: check_angles_snd)

text \<open>
  The seven reads \<^verbatim>\<open>angles[0]\<close> to \<^verbatim>\<open>angles[6]\<close> succeed on the list that
  \<^const>\<open>human_to_baxter\<close> has filled, so \<^const>\<open>desired_joint_vals\<close> raises only
  where \<^const>\<open>human_to_baxter\<close> does.
\<close>

lemma desired_joint_vals_unfold:
  "desired_joint_vals vo self left_shoulder left_elbow left_hand
       right_shoulder right_elbow right_hand =
     (case human_to_baxter vo self left_shoulder left_elbow left_hand
             right_shoulder right_elbow right_hand [] of
        None \<Rightarrow> None
      | Some (self', close, angles) \<Rightarrow>
          Some (self'\<lparr>gripper := gripper self' @ [if close then Close else Open]\<rparr>,
                crane_l_angles self' ++ dict (zip (joint_names (arm self')) angles)))"
proof (cases "human_to_baxter vo self left_shoulder left_elbow left_hand
             right_shoulder right_elbow right_hand []")
  case None
  then show ?thesis by (simp add: desired_joint_vals_def)
next
  case (Some r)
  obtain self' close angles where r: "r = (self', close, angles)"
    by (cases r) auto
  have len: "length angles = 7"
    using human_to_baxter_length [OF Some [unfolded r]] by simp
  then obtain a0 a1 a2 a3 a4 a5 a6 where angles: "angles = [a0, a1, a2, a3, a4, a5, a6]"
    by (auto simp: length_Suc_conv eval_nat_numeral)
  show ?thesis
    by (simp add: desired_joint_vals_def Some r angles index_def Let_def)
qed

lemma desired_joint_vals_Some:
  assumes "crane_arm_angles vo l_sh l_el l_ha = Some (s0, s1, e0, e1, w0, w1, w2)"
    and "make_vector_from_POINTS vo r_sh r_el = Some r_upper_arm"
    and "make_vector_from_POINTS vo r_el r_ha = Some r_forearm"
    and "angle_between_vectors vo r_upper_arm r_forearm = Some theta"
  shows "desired_joint_vals vo self l_sh l_el l_ha r_sh r_el r_ha =
           Some (self\<lparr>gripper := gripper self @ [if theta > 0.8 then Close else Open]\<rparr>,
                 crane_l_angles self ++
                 dict (zip (joint_names (arm self))
                        (snd (check_angles self s0 s1 e0 e1 w0 w1 w2 []))))"
  by (simp add: desired_joint_vals_unfold human_to_baxter_Some [OF assms])

lemma desired_joint_vals_SomeD:
  assumes "desired_joint_vals vo self l_sh l_el l_ha r_sh r_el r_ha = Some (self', positions)"
  shows "\<exists>close angles.
    human_to_baxter vo self l_sh l_el l_ha r_sh r_el r_ha [] = Some (self, close, angles) \<and>
    self' = self\<lparr>gripper := gripper self @ [if close then Close else Open]\<rparr> \<and>
    positions = crane_l_angles self ++ dict (zip (joint_names (arm self)) angles)"
proof -
  from assms obtain c close angles where
    h: "human_to_baxter vo self l_sh l_el l_ha r_sh r_el r_ha [] = Some (c, close, angles)"
    and new: "self' = c\<lparr>gripper := gripper c @ [if close then Close else Open]\<rparr>"
    and pos: "positions = crane_l_angles c ++ dict (zip (joint_names (arm c)) angles)"
    by (auto simp: desired_joint_vals_unfold split: option.splits)
  from human_to_baxter_SomeD [OF h] have "c = self" by auto
  with h new pos show ?thesis by blast
qed


lemma desired_pose_vals_SomeD:
  assumes "desired_pose_vals vo self left_shoulder left_elbow left_hand
             right_shoulder right_elbow right_hand torso = Some (self', pose)"
  shows "\<exists>command. self' = self\<lparr>gripper := gripper self @ [command]\<rparr>"
  using assms
  by (auto simp: desired_pose_vals_def Let_def bind_eq_Some_conv split: if_splits)

subsection \<open>Reachable states\<close>

text \<open>
  No call changes anything but the commands sent to the gripper.
\<close>

lemma reachable_only_gripper:
  assumes "reachable vo right_limb self"
  shows "\<exists>commands. self = (Crane_init right_limb)\<lparr>gripper := commands\<rparr>"
  using assms
proof (induction rule: reachable.induct)
  case constructed
  have "Crane_init right_limb = (Crane_init right_limb)\<lparr>gripper := []\<rparr>"
    by (simp add: Crane_init_def)
  then show ?case by blast
next
  case (after_desired_joint_vals self left_shoulder left_elbow left_hand
      right_shoulder right_elbow right_hand self' positions)
  from desired_joint_vals_SomeD [OF after_desired_joint_vals.hyps(2)]
    after_desired_joint_vals.IH
  show ?case by auto
next
  case (after_desired_pose_vals self left_shoulder left_elbow left_hand
      right_shoulder right_elbow right_hand torso self' pose)
  from desired_pose_vals_SomeD [OF after_desired_pose_vals.hyps(2)]
    after_desired_pose_vals.IH
  show ?case by auto
next
  case (after_human_to_baxter self l_sh l_el l_ha r_sh r_el r_ha a self' close a')
  from human_to_baxter_SomeD [OF after_human_to_baxter.hyps(2)] have "self' = self"
    by auto
  with after_human_to_baxter.IH show ?case by simp
next
  case (after_check_angles self s0 s1 e0 e1 w0 w1 w2 angles self' angles')
  from after_check_angles.hyps(2) check_angles_fst [of self s0 s1 e0 e1 w0 w1 w2 angles]
  have "self' = self" by simp
  with after_check_angles.IH show ?case by simp
qed

lemma fixed_pose_entries:
  "crane_l_angles (Crane_init right_limb) ''left_s0'' = Some 0.35"
  "crane_l_angles (Crane_init right_limb) ''left_s1'' = Some 0.00"
  "crane_l_angles (Crane_init right_limb) ''left_e0'' = Some 0.00"
  "crane_l_angles (Crane_init right_limb) ''left_e1'' = Some 1.57"
  "crane_l_angles (Crane_init right_limb) ''left_w0'' = Some 0.00"
  "crane_l_angles (Crane_init right_limb) ''left_w1'' = Some 0.00"
  "crane_l_angles (Crane_init right_limb) ''left_w2'' = Some 0.00"
  by (simp_all add: Crane_init_def dict_def)

subsection \<open>Concrete frames\<close>

text \<open>
  Frames on which the controller is run below, with \<^const>\<open>VectorGeometry\<close> for the
  vector functions: a mimicked arm with the elbow above the shoulder, one with the elbow
  below it, one pointing along the forward axis; a second limb bent at a right angle and
  one bent by exactly 0.8 radians.
\<close>

lemma arccos_inv_sqrt2: "arccos (1 / sqrt 2) = pi / 4"
proof -
  have "cos (pi / 4) = 1 / sqrt 2"
    by (simp add: cos_45 real_div_sqrt)
  moreover have "arccos (cos (pi / 4)) = pi / 4"
    by (rule arccos_cos) simp_all
  ultimately show ?thesis by simp
qed

lemma max_inv_sqrt2: "max (- 1) (1 / sqrt 2) = 1 / sqrt 2"
proof -
  have "(0::real) \<le> 1 / sqrt 2" by simp
  then have "(- 1::real) \<le> 1 / sqrt 2" by linarith
  then show ?thesis by (simp only: max_def if_True)
qed

lemmas geometry_defs = VectorGeometry_def vectorFromPoints_def angleBetween_def
  projectOntoPlane_def shortestVectorPointToLine_def dot_def pt_def

lemma pi_facts:
  "- 0.25 < pi / 4" "pi / 4 < 1.60" "- 2.00 < - (pi / 4)" "- (pi / 4) < 0.90"
  "0.10 < pi / 2" "pi / 2 < 2.50" "\<not> - 0.25 < - (pi / 4)" "0.8 < pi / 2"
  using pi_ge_two pi_less_4 by simp_all

lemma raised_arm_calls:
  "make_vector_from_POINTS VectorGeometry (pt 0 0 0) (pt 0 1 1) = Some [0, 1, 1]"
  "make_vector_from_POINTS VectorGeometry (pt 0 1 1) (pt 1 1 1) = Some [1, 0, 0]"
  "vector_projection_onto_plane VectorGeometry [0, 1, 1] [0, 0, - 1] [- 1, 0, 0]
     = Some [0, 1, 0]"
  "angle_between_vectors VectorGeometry [0, 1, 0] [- 1, 0, 0] = Some (pi / 2)"
  "angle_between_vectors VectorGeometry [0, 1, 1] [0, 1, 0] = Some (pi / 4)"
  "shortest_vector_from_point_to_vector VectorGeometry (pt 1 1 1) [0, 1, 1] [1, 0, 0] (pt 0 0 0)
     = Some [- 1, 0, 0]"
  "angle_between_vectors VectorGeometry [- 1, 0, 0] [0, 1, 0] = Some (pi / 2)"
  "angle_between_vectors VectorGeometry [0, 1, 1] [1, 0, 0] = Some (pi / 2)"
  by (simp_all add: geometry_defs max_inv_sqrt2 arccos_inv_sqrt2)

lemma lowered_arm_calls:
  "make_vector_from_POINTS VectorGeometry (pt 0 0 0) (pt 0 (- 1) 1) = Some [0, - 1, 1]"
  "make_vector_from_POINTS VectorGeometry (pt 0 (- 1) 1) (pt 1 (- 1) 1) = Some [1, 0, 0]"
  "vector_projection_onto_plane VectorGeometry [0, - 1, 1] [0, 0, - 1] [- 1, 0, 0]
     = Some [0, - 1, 0]"
  "angle_between_vectors VectorGeometry [0, - 1, 0] [- 1, 0, 0] = Some (pi / 2)"
  "angle_between_vectors VectorGeometry [0, - 1, 1] [0, - 1, 0] = Some (pi / 4)"
  "shortest_vector_from_point_to_vector VectorGeometry (pt 1 (- 1) 1) [0, - 1, 1] [1, 0, 0]
     (pt 0 0 0) = Some [- 1, 0, 0]"
  "angle_between_vectors VectorGeometry [- 1, 0, 0] [0, 1, 0] = Some (pi / 2)"
  "angle_between_vectors VectorGeometry [0, - 1, 1] [1, 0, 0] = Some (pi / 2)"
  by (simp_all add: geometry_defs max_inv_sqrt2 arccos_inv_sqrt2)

lemma lowered_arm:
  "crane_arm_angles VectorGeometry (pt 0 0 0) (pt 0 (- 1) 1) (pt 1 (- 1) 1) =
     Some (pi / 4, - (pi / 4), pi / 2, pi / 2, - 1.57, 0, - 0.30)"
  by (simp add: crane_arm_angles_def geometry_defs Let_def max_inv_sqrt2 arccos_inv_sqrt2)

lemma forward_arm:
  "crane_arm_angles VectorGeometry (pt 0 0 0) (pt (- 1) 0 0) (pt (- 1) 1 0) =
     Some (- (pi / 4), 0, pi, pi / 2, - 1.57, 0, - 0.30)"
  by (simp add: crane_arm_angles_def geometry_defs Let_def)

lemma bent_limb:
  "make_vector_from_POINTS VectorGeometry (pt 0 0 0) (pt 1 0 0) = Some [1, 0, 0]"
  "make_vector_from_POINTS VectorGeometry (pt 1 0 0) (pt 1 1 0) = Some [0, 1, 0]"
  "angle_between_vectors VectorGeometry [1, 0, 0] [0, 1, 0] = Some (pi / 2)"
  by (simp_all add: geometry_defs)

lemma threshold_limb:
  "make_vector_from_POINTS VectorGeometry (pt 1 0 0) (pt (1 + cos 0.8) (sin 0.8) 0)
     = Some [cos 0.8, sin 0.8, 0]"
  "angle_between_vectors VectorGeometry [1, 0, 0] [cos 0.8, sin 0.8, 0] = Some 0.8"
proof -
  show "make_vector_from_POINTS VectorGeometry (pt 1 0 0) (pt (1 + cos 0.8) (sin 0.8) 0)
     = Some [cos 0.8, sin 0.8, 0]"
    by (simp add: geometry_defs)
  have unit: "cos (0.8::real) * cos 0.8 + sin (0.8::real) * sin 0.8 = 1"
    using sin_cos_squared_add2 [of "0.8::real"] by (simp add: power2_eq_square)
  have bounds: "max (- 1) (min 1 (cos (0.8::real))) = cos 0.8"
    by (simp only: min_absorb2 [OF cos_le_one] max_absorb2 [OF cos_ge_minus_one])
  have "arccos (cos (0.8::real)) = 0.8"
    using pi_ge_two by (intro arccos_cos) simp_all
  then show "angle_between_vectors VectorGeometry [1, 0, 0] [cos 0.8, sin 0.8, 0] = Some 0.8"
    by (simp add: geometry_defs unit bounds)
qed

lemma two_frames:
  "human_to_baxter VectorGeometry (Crane_init baxter_right_limb)
       (pt 0 0 0) (pt 0 (- 1) 1) (pt 1 (- 1) 1) (pt 0 0 0) (pt 1 0 0) (pt 1 1 0) []
     = Some (Crane_init baxter_right_limb, True,
             [pi / 4, - (pi / 4), pi / 2, pi / 2, - 1.57, 0, - 0.30])"
  "human_to_baxter VectorGeometry (Crane_init baxter_right_limb)
       (pt 0 0 0) (pt (- 1) 0 0) (pt (- 1) 1 0) (pt 0 0 0) (pt 1 0 0) (pt 1 1 0) []
     = Some (Crane_init baxter_right_limb, True,
             [- 0.25, 0, pi, pi / 2, - 1.57, 0, - 0.30])"
  using pi_facts
  by (simp_all add: human_to_baxter_Some [OF lowered_arm bent_limb]
      human_to_baxter_Some [OF forward_arm bent_limb] check_angles_snd)


lemma right_limb_names:
  "joint_names (arm (Crane_init baxter_right_limb)) =
     [''right_s0'', ''right_s1'', ''right_e0'', ''right_e1'',
      ''right_w0'', ''right_w1'', ''right_w2'']"
  by (simp add: Crane_init_def baxter_right_limb_def)

section \<open>The claims\<close>

subsection \<open>C1: clamping in \<^verbatim>\<open>check_angles\<close>\<close>

text \<open>
  C1. For every real \<open>s0\<close>, \<open>s1\<close>, \<open>e1\<close>, \<^const>\<open>check_angles\<close> appends for each
  bounded axis (s0 with \<open>[-0.25, 1.60]\<close>, s1 with \<open>[-2.00, 0.90]\<close>, e1 with
  \<open>[0.10, 2.50]\<close>) a value within the bounds: the input itself when it lies strictly
  inside the bounds, the upper bound when the input is at or above it (also when it is
  exactly the bound), and the lower bound when the input is at or below it (also when it
  is exactly the bound). The unbounded e0 and the three wrist values are appended as
  they are.
\<close>

theorem check_angles_saturates:
  "\<exists>o_s0 o_s1 o_e1.
     check_angles self s0 s1 e0 e1 w0 w1 w2 angles =
       (self, angles @ [o_s0, o_s1, e0, o_e1, w0, w1, w2]) \<and>
     (- 0.25 \<le> o_s0 \<and> o_s0 \<le> 1.60 \<and>
      (- 0.25 < s0 \<and> s0 < 1.60 \<longrightarrow> o_s0 = s0) \<and>
      (1.60 \<le> s0 \<longrightarrow> o_s0 = 1.60) \<and> (s0 \<le> - 0.25 \<longrightarrow> o_s0 = - 0.25)) \<and>
     (- 2.00 \<le> o_s1 \<and> o_s1 \<le> 0.90 \<and>
      (- 2.00 < s1 \<and> s1 < 0.90 \<longrightarrow> o_s1 = s1) \<and>
      (0.90 \<le> s1 \<longrightarrow> o_s1 = 0.90) \<and> (s1 \<le> - 2.00 \<longrightarrow> o_s1 = - 2.00)) \<and>
     (0.10 \<le> o_e1 \<and> o_e1 \<le> 2.50 \<and>
      (0.10 < e1 \<and> e1 < 2.50 \<longrightarrow> o_e1 = e1) \<and>
      (2.50 \<le> e1 \<longrightarrow> o_e1 = 2.50) \<and> (e1 \<le> 0.10 \<longrightarrow> o_e1 = 0.10))"
proof -
  let ?o_s0 = "if - 0.25 < s0 \<and> s0 < 1.60 then s0 else if - 0.25 < s0 then 1.60 else - 0.25"
  let ?o_s1 = "if - 2.00 < s1 \<and> s1 < 0.90 then s1 else if - 2.00 < s1 then 0.90 else - 2.00"
  let ?o_e1 = "if 0.10 < e1 \<and> e1 < 2.50 then e1 else if 0.10 < e1 then 2.50 else 0.10"
  have "check_angles self s0 s1 e0 e1 w0 w1 w2 angles =
          (self, angles @ [?o_s0, ?o_s1, e0, ?o_e1, w0, w1, w2])"
    using check_angles_pair [of self s0 s1 e0 e1 w0 w1 w2 angles]
    by (simp only: check_angles_snd)
  moreover have "(- 0.25 :: real) < 1.60" "(- 2.00 :: real) < 0.90" "(0.10 :: real) < 2.50"
    by simp_all
  note saturate [OF this(1), of s0] saturate [OF this(2), of s1] saturate [OF this(3), of e1]
  ultimately show ?thesis by blast
qed

text \<open>
  The theorem at four inputs: inside the bounds and below; at the upper bounds (and the
  lower one of e1); at the lower bounds and above; above the upper bounds and below.
\<close>

theorem check_angles_saturates_witness:
  "check_angles (Crane_init baxter_right_limb) 0.5 (- 3) 7 2.50 (- 1.57) 0 (- 0.30) [] =
     (Crane_init baxter_right_limb, [0.5, - 2.00, 7, 2.50, - 1.57, 0, - 0.30]) \<and>
   check_angles (Crane_init baxter_right_limb) 1.60 0.90 7 0.10 (- 1.57) 0 (- 0.30) [] =
     (Crane_init baxter_right_limb, [1.60, 0.90, 7, 0.10, - 1.57, 0, - 0.30]) \<and>
   check_angles (Crane_init baxter_right_limb) (- 0.25) (- 2.00) 7 3 (- 1.57) 0 (- 0.30) [] =
     (Crane_init baxter_right_limb, [- 0.25, - 2.00, 7, 2.50, - 1.57, 0, - 0.30]) \<and>
   check_angles (Crane_init baxter_right_limb) 2 1 7 0 (- 1.57) 0 (- 0.30) [] =
     (Crane_init baxter_right_limb, [1.60, 0.90, 7, 0.10, - 1.57, 0, - 0.30])"
  using
    check_angles_saturates
      [of "Crane_init baxter_right_limb" "0.5" "- 3" 7 "2.50" "- 1.57" 0 "- 0.30" "[]"]
    check_angles_saturates
      [of "Crane_init baxter_right_limb" "1.60" "0.90" 7 "0.10" "- 1.57" 0 "- 0.30" "[]"]
    check_angles_saturates
      [of "Crane_init baxter_right_limb" "- 0.25" "- 2.00" 7 3 "- 1.57" 0 "- 0.30" "[]"]
    check_angles_saturates
      [of "Crane_init baxter_right_limb" 2 1 7 0 "- 1.57" 0 "- 0.30" "[]"]
  by auto

subsection \<open>C2: the gripper threshold\<close>

text \<open>
  C2. With \<open>upperArm2\<close> and \<open>forearm2\<close> the vectors of the second limb and
  \<open>theta2\<close> the angle between them, \<^verbatim>\<open>human_to_baxter\<close> returns the flag
  \<open>theta2 > 0.8\<close>, and \<^verbatim>\<open>desired_joint_vals\<close> sends \<^verbatim>\<open>close\<close> to the
  gripper if \<open>theta2 > 0.8\<close> and \<^verbatim>\<open>open\<close> otherwise; so at exactly \<open>0.8\<close> the
  command is \<^verbatim>\<open>open\<close>. The first hypothesis says that the computation for the
  mimicked limb, which runs first, returns.
\<close>

theorem gripper_threshold:
  assumes "crane_arm_angles vo l_sh l_el l_ha = Some (s0, s1, e0, e1, w0, w1, w2)"
    and "make_vector_from_POINTS vo r_sh r_el = Some upperArm2"
    and "make_vector_from_POINTS vo r_el r_ha = Some forearm2"
    and "angle_between_vectors vo upperArm2 forearm2 = Some theta2"
  shows "\<exists>a' positions.
           human_to_baxter vo self l_sh l_el l_ha r_sh r_el r_ha a
             = Some (self, theta2 > 0.8, a') \<and>
           desired_joint_vals vo self l_sh l_el l_ha r_sh r_el r_ha
             = Some (self\<lparr>gripper := gripper self @ [if theta2 > 0.8 then Close else Open]\<rparr>,
                     positions)"
  using human_to_baxter_Some [OF assms] desired_joint_vals_Some [OF assms] by blast

text \<open>
  The theorem on a second limb bent at a right angle, and on one bent by exactly 0.8.
\<close>

theorem gripper_threshold_witness:
  "(\<exists>a' positions.
      human_to_baxter VectorGeometry (Crane_init baxter_right_limb)
          (pt 0 0 0) (pt (- 1) 0 0) (pt (- 1) 1 0) (pt 0 0 0) (pt 1 0 0) (pt 1 1 0) []
        = Some (Crane_init baxter_right_limb, True, a') \<and>
      desired_joint_vals VectorGeometry (Crane_init baxter_right_limb)
          (pt 0 0 0) (pt (- 1) 0 0) (pt (- 1) 1 0) (pt 0 0 0) (pt 1 0 0) (pt 1 1 0)
        = Some ((Crane_init baxter_right_limb)\<lparr>gripper := [Close]\<rparr>, positions)) \<and>
   (\<exists>a' positions.
      angle_between_vectors VectorGeometry [1, 0, 0] [cos 0.8, sin 0.8, 0] = Some 0.8 \<and>
      human_to_baxter VectorGeometry (Crane_init baxter_right_limb)
          (pt 0 0 0) (pt (- 1) 0 0) (pt (- 1) 1 0)
          (pt 0 0 0) (pt 1 0 0) (pt (1 + cos 0.8) (sin 0.8) 0) []
        = Some (Crane_init baxter_right_limb, False, a') \<and>
      desired_joint_vals VectorGeometry (Crane_init baxter_right_limb)
          (pt 0 0 0) (pt (- 1) 0 0) (pt (- 1) 1 0)
          (pt 0 0 0) (pt 1 0 0) (pt (1 + cos 0.8) (sin 0.8) 0)
        = Some ((Crane_init baxter_right_limb)\<lparr>gripper := [Open]\<rparr>, positions))"
proof -
  have g: "gripper (Crane_init baxter_right_limb) = []"
    by (simp add: Crane_init_def)
  have "\<exists>a' positions.
      human_to_baxter VectorGeometry (Crane_init baxter_right_limb)
          (pt 0 0 0) (pt (- 1) 0 0) (pt (- 1) 1 0) (pt 0 0 0) (pt 1 0 0) (pt 1 1 0) []
        = Some (Crane_init baxter_right_limb, True, a') \<and>
      desired_joint_vals VectorGeometry (Crane_init baxter_right_limb)
          (pt 0 0 0) (pt (- 1) 0 0) (pt (- 1) 1 0) (pt 0 0 0) (pt 1 0 0) (pt 1 1 0)
        = Some ((Crane_init baxter_right_limb)\<lparr>gripper := [Close]\<rparr>, positions)"
    using gripper_threshold [OF forward_arm bent_limb,
        of "Crane_init baxter_right_limb" "[]"] pi_facts(8)
    by (simp add: g)
  moreover have "\<exists>a' positions.
      angle_between_vectors VectorGeometry [1, 0, 0] [cos 0.8, sin 0.8, 0] = Some 0.8 \<and>
      human_to_baxter VectorGeometry (Crane_init baxter_right_limb)
          (pt 0 0 0) (pt (- 1) 0 0) (pt (- 1) 1 0)
          (pt 0 0 0) (pt 1 0 0) (pt (1 + cos 0.8) (sin 0.8) 0) []
        = Some (Crane_init baxter_right_limb, False, a') \<and>
      desired_joint_vals VectorGeometry (Crane_init baxter_right_limb)
          (pt 0 0 0) (pt (- 1) 0 0) (pt (- 1) 1 0)
          (pt 0 0 0) (pt 1 0 0) (pt (1 + cos 0.8) (sin 0.8) 0)
        = Some ((Crane_init baxter_right_limb)\<lparr>gripper := [Open]\<rparr>, positions)"
    using gripper_threshold [OF forward_arm bent_limb(1) threshold_limb,
        of "Crane_init baxter_right_limb" "[]"] threshold_limb(2)
    by (simp add: g)
  ultimately show ?thesis by (rule conjI)
qed

subsection \<open>C3: the mimicked arm's entries\<close>

text \<open>
  C3. When the vector functions return, \<^verbatim>\<open>desired_joint_vals\<close> returns the fixed
  pose overridden by the joint names zipped with the seven angles: s0 clamped, s1
  clamped, e0 as computed, e1 clamped, and the constants \<open>-1.57\<close>, \<open>0.00\<close>,
  \<open>-0.30\<close>. With seven distinct joint names, the entry of the i-th name is the i-th
  angle.
\<close>

theorem mimicked_arm_positions:
  assumes "crane_arm_angles vo l_sh l_el l_ha = Some (s0, s1, e0, e1, w0, w1, w2)"
    and "make_vector_from_POINTS vo r_sh r_el = Some r_upper_arm"
    and "make_vector_from_POINTS vo r_el r_ha = Some r_forearm"
    and "angle_between_vectors vo r_upper_arm r_forearm = Some theta"
  shows "\<exists>self' positions angles.
    desired_joint_vals vo self l_sh l_el l_ha r_sh r_el r_ha = Some (self', positions) \<and>
    angles =
      [if - 0.25 < s0 \<and> s0 < 1.60 then s0 else if - 0.25 < s0 then 1.60 else - 0.25,
       if - 2.00 < s1 \<and> s1 < 0.90 then s1 else if - 2.00 < s1 then 0.90 else - 2.00,
       e0,
       if 0.10 < e1 \<and> e1 < 2.50 then e1 else if 0.10 < e1 then 2.50 else 0.10,
       - 1.57, 0.00, - 0.30] \<and>
    positions = crane_l_angles self ++ dict (zip (joint_names (arm self)) angles) \<and>
    (distinct (joint_names (arm self)) \<and> length (joint_names (arm self)) = 7 \<longrightarrow>
       (\<forall>i<7. positions (joint_names (arm self) ! i) = Some (angles ! i)))"
proof -
  let ?angles = "snd (check_angles self s0 s1 e0 e1 w0 w1 w2 [])"
  let ?positions = "crane_l_angles self ++ dict (zip (joint_names (arm self)) ?angles)"
  have angles: "?angles =
      [if - 0.25 < s0 \<and> s0 < 1.60 then s0 else if - 0.25 < s0 then 1.60 else - 0.25,
       if - 2.00 < s1 \<and> s1 < 0.90 then s1 else if - 2.00 < s1 then 0.90 else - 2.00,
       e0,
       if 0.10 < e1 \<and> e1 < 2.50 then e1 else if 0.10 < e1 then 2.50 else 0.10,
       - 1.57, 0.00, - 0.30]"
    using crane_arm_angles_wrist [OF assms(1)] by (simp only: check_angles_snd append_Nil)
  have len: "length ?angles = 7"
    by (simp add: check_angles_snd)
  have "\<forall>i<7. ?positions (joint_names (arm self) ! i) = Some (?angles ! i)"
    if "distinct (joint_names (arm self))" and "length (joint_names (arm self)) = 7"
    using that len by (simp add: dict_zip_nth)
  with desired_joint_vals_Some [OF assms, of self] angles
  show ?thesis by blast
qed

text \<open>
  The theorem on the arm pointing forward: s0 is \<open>- pi / 4\<close> and is clamped to
  \<open>-0.25\<close>, e0 is \<open>pi\<close> and is passed on.
\<close>

theorem mimicked_arm_positions_witness:
  "\<exists>self' positions.
     desired_joint_vals VectorGeometry (Crane_init baxter_right_limb)
         (pt 0 0 0) (pt (- 1) 0 0) (pt (- 1) 1 0) (pt 0 0 0) (pt 1 0 0) (pt 1 1 0)
       = Some (self', positions) \<and>
     positions = crane_l_angles (Crane_init baxter_right_limb) ++
       dict (zip (joint_names (arm (Crane_init baxter_right_limb)))
              [- 0.25, 0, pi, pi / 2, - 1.57, 0, - 0.30]) \<and>
     distinct (joint_names (arm (Crane_init baxter_right_limb))) \<and>
     length (joint_names (arm (Crane_init baxter_right_limb))) = 7 \<and>
     positions ''right_s0'' = Some (- 0.25) \<and> positions ''right_s1'' = Some 0 \<and>
     positions ''right_e0'' = Some pi \<and> positions ''right_e1'' = Some (pi / 2) \<and>
     positions ''right_w0'' = Some (- 1.57) \<and> positions ''right_w1'' = Some 0 \<and>
     positions ''right_w2'' = Some (- 0.30)"
proof -
  let ?c = "Crane_init baxter_right_limb"
  let ?names = "joint_names (arm ?c)"
  let ?angles = "[- 0.25, 0, pi, pi / 2, - 1.57, 0, - 0.30] :: real list"
  have d: "distinct ?names" and l: "length ?names = 7"
    by (simp_all add: right_limb_names)
  from mimicked_arm_positions [OF forward_arm bent_limb, of ?c]
  have "\<exists>self' positions.
    desired_joint_vals VectorGeometry ?c
         (pt 0 0 0) (pt (- 1) 0 0) (pt (- 1) 1 0) (pt 0 0 0) (pt 1 0 0) (pt 1 1 0)
       = Some (self', positions) \<and>
    positions = crane_l_angles ?c ++ dict (zip ?names ?angles) \<and>
    (distinct ?names \<and> length ?names = 7 \<longrightarrow>
       (\<forall>i<7. positions (?names ! i) = Some (?angles ! i)))"
    using pi_facts by simp
  then obtain self' positions where
    ret: "desired_joint_vals VectorGeometry ?c
         (pt 0 0 0) (pt (- 1) 0 0) (pt (- 1) 1 0) (pt 0 0 0) (pt 1 0 0) (pt 1 1 0)
       = Some (self', positions)"
    and positions: "positions = crane_l_angles ?c ++ dict (zip ?names ?angles)"
    and entries: "distinct ?names \<and> length ?names = 7 \<longrightarrow>
       (\<forall>i<7. positions (?names ! i) = Some (?angles ! i))"
    by (elim exE conjE)
  from entries d l have e: "\<And>i. i < 7 \<Longrightarrow> positions (?names ! i) = Some (?angles ! i)"
    by simp
  have "positions ''right_s0'' = Some (- 0.25)" "positions ''right_s1'' = Some 0"
    "positions ''right_e0'' = Some pi" "positions ''right_e1'' = Some (pi / 2)"
    "positions ''right_w0'' = Some (- 1.57)" "positions ''right_w1'' = Some 0"
    "positions ''right_w2'' = Some (- 0.30)"
    using e [of 0] e [of 1] e [of 2] e [of 3] e [of 4] e [of 5] e [of 6]
    by (simp_all add: right_limb_names)
  with ret positions d l show ?thesis
    by (intro exI [of _ self'] exI [of _ positions] conjI)
qed

subsection \<open>C4: the fixed arm's entries\<close>

text \<open>
  C4. In every reachable state and for all six points, the dictionary returned by
  \<^verbatim>\<open>desired_joint_vals\<close> has the seven entries of the fixed pose set at
  construction, provided that none of the limb's joint names is one of the seven
  \<^verbatim>\<open>left_\<close> keys (an entry of the mimicked arm would override it).
\<close>

theorem fixed_arm_positions:
  assumes "reachable vo right_limb self"
    and "desired_joint_vals vo self left_shoulder left_elbow left_hand
           right_shoulder right_elbow right_hand = Some (self', positions)"
    and "set (joint_names right_limb) \<inter>
           {''left_s0'', ''left_s1'', ''left_e0'', ''left_e1'',
            ''left_w0'', ''left_w1'', ''left_w2''} = {}"
  shows "positions ''left_s0'' = Some 0.35 \<and> positions ''left_s1'' = Some 0.00 \<and>
         positions ''left_e0'' = Some 0.00 \<and> positions ''left_e1'' = Some 1.57 \<and>
         positions ''left_w0'' = Some 0.00 \<and> positions ''left_w1'' = Some 0.00 \<and>
         positions ''left_w2'' = Some 0.00"
proof -
  from reachable_only_gripper [OF assms(1)]
  have fixed: "crane_l_angles self = crane_l_angles (Crane_init right_limb)"
    and names: "joint_names (arm self) = joint_names right_limb"
    by (auto simp: Crane_init_def)
  from desired_joint_vals_SomeD [OF assms(2)] fixed names obtain angles where
    positions: "positions = crane_l_angles (Crane_init right_limb) ++
                  dict (zip (joint_names right_limb) angles)"
    by auto
  have other: "''left_s0'' \<notin> set (joint_names right_limb)"
    "''left_s1'' \<notin> set (joint_names right_limb)"
    "''left_e0'' \<notin> set (joint_names right_limb)"
    "''left_e1'' \<notin> set (joint_names right_limb)"
    "''left_w0'' \<notin> set (joint_names right_limb)"
    "''left_w1'' \<notin> set (joint_names right_limb)"
    "''left_w2'' \<notin> set (joint_names right_limb)"
    using assms(3) by blast+
  show ?thesis
    by (simp only: positions map_add_dict_zip_other [OF other(1)]
        map_add_dict_zip_other [OF other(2)] map_add_dict_zip_other [OF other(3)]
        map_add_dict_zip_other [OF other(4)] map_add_dict_zip_other [OF other(5)]
        map_add_dict_zip_other [OF other(6)] map_add_dict_zip_other [OF other(7)]
        fixed_pose_entries simp_thms)
qed

text \<open>
  The theorem on the state after construction, with the names of Baxter's right limb.
\<close>

theorem fixed_arm_positions_witness:
  "\<exists>self' positions.
     reachable VectorGeometry baxter_right_limb (Crane_init baxter_right_limb) \<and>
     desired_joint_vals VectorGeometry (Crane_init baxter_right_limb)
         (pt 0 0 0) (pt (- 1) 0 0) (pt (- 1) 1 0) (pt 0 0 0) (pt 1 0 0) (pt 1 1 0)
       = Some (self', positions) \<and>
     set (joint_names baxter_right_limb) \<inter>
        {''left_s0'', ''left_s1'', ''left_e0'', ''left_e1'',
         ''left_w0'', ''left_w1'', ''left_w2''} = {} \<and>
     (positions ''left_s0'' = Some 0.35 \<and> positions ''left_s1'' = Some 0.00 \<and>
      positions ''left_e0'' = Some 0.00 \<and> positions ''left_e1'' = Some 1.57 \<and>
      positions ''left_w0'' = Some 0.00 \<and> positions ''left_w1'' = Some 0.00 \<and>
      positions ''left_w2'' = Some 0.00)"
proof -
  have r: "reachable VectorGeometry baxter_right_limb (Crane_init baxter_right_limb)"
    by (rule constructed)
  have n: "set (joint_names baxter_right_limb) \<inter>
        {''left_s0'', ''left_s1'', ''left_e0'', ''left_e1'',
         ''left_w0'', ''left_w1'', ''left_w2''} = {}"
    by (simp add: baxter_right_limb_def)
  note d = desired_joint_vals_Some [OF forward_arm bent_limb, of "Crane_init baxter_right_limb"]
  note p = fixed_arm_positions [OF r d n]
  show ?thesis
    by (rule exI, rule exI, rule conjI [OF r], rule conjI [OF d], rule conjI [OF n], rule p)
qed

subsection \<open>C5: the shoulder-elevation angle\<close>

text \<open>
  C5. When the vector functions return on the mimicked limb, the shoulder-elevation
  angle s1 before clamping is the angle \<open>theta\<close> between the upper arm and its
  projection when the elbow's y-coordinate is strictly greater than the shoulder's, and
  \<open>- theta\<close> when it is less than or equal. This s1 is the second of the angles of
  \<^const>\<open>crane_arm_angles\<close>, and it is what \<^verbatim>\<open>human_to_baxter\<close> passes to
  \<^verbatim>\<open>check_angles\<close>.
\<close>

theorem shoulder_elevation_angle:
  assumes "make_vector_from_POINTS vo l_sh l_el = Some upperArm"
    and "make_vector_from_POINTS vo l_el l_ha = Some forearm"
    and "vector_projection_onto_plane vo upperArm [0, 0, - 1] [- 1, 0, 0] = Some p"
    and "angle_between_vectors vo p [- 1, 0, 0] = Some t0"
    and "angle_between_vectors vo upperArm p = Some theta"
    and "shortest_vector_from_point_to_vector vo l_ha upperArm forearm l_sh = Some n"
    and "angle_between_vectors vo n [0, 1, 0] = Some t2"
    and "angle_between_vectors vo upperArm forearm = Some t3"
  shows "\<exists>s0 s1 e0 e1 w0 w1 w2.
           (pt_y l_el > pt_y l_sh \<longrightarrow> s1 = theta) \<and>
           (pt_y l_el \<le> pt_y l_sh \<longrightarrow> s1 = - theta) \<and>
           crane_arm_angles vo l_sh l_el l_ha = Some (s0, s1, e0, e1, w0, w1, w2) \<and>
           (\<forall>self r_sh r_el r_ha a upperArm2 forearm2 theta2.
              make_vector_from_POINTS vo r_sh r_el = Some upperArm2 \<and>
              make_vector_from_POINTS vo r_el r_ha = Some forearm2 \<and>
              angle_between_vectors vo upperArm2 forearm2 = Some theta2 \<longrightarrow>
              human_to_baxter vo self l_sh l_el l_ha r_sh r_el r_ha a =
                Some (self, theta2 > 0.8, snd (check_angles self s0 s1 e0 e1 w0 w1 w2 a)))"
proof -
  let ?s1 = "if pt_y l_el > pt_y l_sh then theta else - theta"
  note c = crane_arm_angles_Some [OF assms]
  have "(pt_y l_el > pt_y l_sh \<longrightarrow> ?s1 = theta) \<and> (pt_y l_el \<le> pt_y l_sh \<longrightarrow> ?s1 = - theta)"
    by simp
  moreover have "\<forall>self r_sh r_el r_ha a upperArm2 forearm2 theta2.
              make_vector_from_POINTS vo r_sh r_el = Some upperArm2 \<and>
              make_vector_from_POINTS vo r_el r_ha = Some forearm2 \<and>
              angle_between_vectors vo upperArm2 forearm2 = Some theta2 \<longrightarrow>
              human_to_baxter vo self l_sh l_el l_ha r_sh r_el r_ha a =
                Some (self, theta2 > 0.8,
                      snd (check_angles self (t0 - pi / 4) ?s1 t2 t3 (- 1.57) 0.00 (- 0.30) a))"
    using human_to_baxter_Some [OF c] by blast
  ultimately show ?thesis using c by blast
qed

text \<open>
  The theorem on an elbow above the shoulder and on one below it, with the second limb
  bent at a right angle.
\<close>

theorem shoulder_elevation_angle_witness:
  "(\<exists>s0 e0 e1 w0 w1 w2.
      pt_y (pt 0 1 1) > pt_y (pt 0 0 0) \<and>
      crane_arm_angles VectorGeometry (pt 0 0 0) (pt 0 1 1) (pt 1 1 1)
        = Some (s0, pi / 4, e0, e1, w0, w1, w2) \<and>
      human_to_baxter VectorGeometry (Crane_init baxter_right_limb)
          (pt 0 0 0) (pt 0 1 1) (pt 1 1 1) (pt 0 0 0) (pt 1 0 0) (pt 1 1 0) []
        = Some (Crane_init baxter_right_limb, True,
                snd (check_angles (Crane_init baxter_right_limb)
                       s0 (pi / 4) e0 e1 w0 w1 w2 []))) \<and>
   (\<exists>s0 e0 e1 w0 w1 w2.
      pt_y (pt 0 (- 1) 1) \<le> pt_y (pt 0 0 0) \<and>
      crane_arm_angles VectorGeometry (pt 0 0 0) (pt 0 (- 1) 1) (pt 1 (- 1) 1)
        = Some (s0, - (pi / 4), e0, e1, w0, w1, w2) \<and>
      human_to_baxter VectorGeometry (Crane_init baxter_right_limb)
          (pt 0 0 0) (pt 0 (- 1) 1) (pt 1 (- 1) 1) (pt 0 0 0) (pt 1 0 0) (pt 1 1 0) []
        = Some (Crane_init baxter_right_limb, True,
                snd (check_angles (Crane_init baxter_right_limb)
                       s0 (- (pi / 4)) e0 e1 w0 w1 w2 [])))"
proof -
  let ?c = "Crane_init baxter_right_limb"
  have up: "pt_y (pt 0 1 1) > pt_y (pt 0 0 0)"
    and down: "pt_y (pt 0 (- 1) 1) \<le> pt_y (pt 0 0 0)"
    by (simp_all add: pt_def)
  from shoulder_elevation_angle [OF raised_arm_calls]
  obtain s0 s1 e0 e1 w0 w1 w2 where
    s1: "pt_y (pt 0 1 1) > pt_y (pt 0 0 0) \<longrightarrow> s1 = pi / 4"
    and "pt_y (pt 0 1 1) \<le> pt_y (pt 0 0 0) \<longrightarrow> s1 = - (pi / 4)"
    and c: "crane_arm_angles VectorGeometry (pt 0 0 0) (pt 0 1 1) (pt 1 1 1)
              = Some (s0, s1, e0, e1, w0, w1, w2)"
    and h: "\<forall>self r_sh r_el r_ha a upperArm2 forearm2 theta2.
              make_vector_from_POINTS VectorGeometry r_sh r_el = Some upperArm2 \<and>
              make_vector_from_POINTS VectorGeometry r_el r_ha = Some forearm2 \<and>
              angle_between_vectors VectorGeometry upperArm2 forearm2 = Some theta2 \<longrightarrow>
              human_to_baxter VectorGeometry self (pt 0 0 0) (pt 0 1 1) (pt 1 1 1)
                  r_sh r_el r_ha a =
                Some (self, theta2 > 0.8, snd (check_angles self s0 s1 e0 e1 w0 w1 w2 a))"
    by (elim exE conjE) (rule that)
  from s1 up have s1': "s1 = pi / 4" by simp
  from h [rule_format, of "pt 0 0 0" "pt 1 0 0" "[1, 0, 0]" "pt 1 1 0" "[0, 1, 0]" "pi / 2"
      ?c "[]"] bent_limb pi_facts(8)
  have "human_to_baxter VectorGeometry ?c
          (pt 0 0 0) (pt 0 1 1) (pt 1 1 1) (pt 0 0 0) (pt 1 0 0) (pt 1 1 0) []
        = Some (?c, True, snd (check_angles ?c s0 s1 e0 e1 w0 w1 w2 []))"
    by simp
  with up c have first: "\<exists>s0 e0 e1 w0 w1 w2.
      pt_y (pt 0 1 1) > pt_y (pt 0 0 0) \<and>
      crane_arm_angles VectorGeometry (pt 0 0 0) (pt 0 1 1) (pt 1 1 1)
        = Some (s0, pi / 4, e0, e1, w0, w1, w2) \<and>
      human_to_baxter VectorGeometry ?c
          (pt 0 0 0) (pt 0 1 1) (pt 1 1 1) (pt 0 0 0) (pt 1 0 0) (pt 1 1 0) []
        = Some (?c, True, snd (check_angles ?c s0 (pi / 4) e0 e1 w0 w1 w2 []))"
    unfolding s1' by (intro exI conjI)
  from shoulder_elevation_angle [OF lowered_arm_calls]
  obtain s0 s1 e0 e1 w0 w1 w2 where
    "pt_y (pt 0 (- 1) 1) > pt_y (pt 0 0 0) \<longrightarrow> s1 = pi / 4"
    and s1: "pt_y (pt 0 (- 1) 1) \<le> pt_y (pt 0 0 0) \<longrightarrow> s1 = - (pi / 4)"
    and c: "crane_arm_angles VectorGeometry (pt 0 0 0) (pt 0 (- 1) 1) (pt 1 (- 1) 1)
              = Some (s0, s1, e0, e1, w0, w1, w2)"
    and h: "\<forall>self r_sh r_el r_ha a upperArm2 forearm2 theta2.
              make_vector_from_POINTS VectorGeometry r_sh r_el = Some upperArm2 \<and>
              make_vector_from_POINTS VectorGeometry r_el r_ha = Some forearm2 \<and>
              angle_between_vectors VectorGeometry upperArm2 forearm2 = Some theta2 \<longrightarrow>
              human_to_baxter VectorGeometry self (pt 0 0 0) (pt 0 (- 1) 1) (pt 1 (- 1) 1)
                  r_sh r_el r_ha a =
                Some (self, theta2 > 0.8, snd (check_angles self s0 s1 e0 e1 w0 w1 w2 a))"
    by (elim exE conjE) (rule that)
  from s1 down have s1': "s1 = - (pi / 4)" by simp
  from h [rule_format, of "pt 0 0 0" "pt 1 0 0" "[1, 0, 0]" "pt 1 1 0" "[0, 1, 0]" "pi / 2"
      ?c "[]"] bent_limb pi_facts(8)
  have "human_to_baxter VectorGeometry ?c
          (pt 0 0 0) (pt 0 (- 1) 1) (pt 1 (- 1) 1) (pt 0 0 0) (pt 1 0 0) (pt 1 1 0) []
        = Some (?c, True, snd (check_angles ?c s0 s1 e0 e1 w0 w1 w2 []))"
    by simp
  with down c have second: "\<exists>s0 e0 e1 w0 w1 w2.
      pt_y (pt 0 (- 1) 1) \<le> pt_y (pt 0 0 0) \<and>
      crane_arm_angles VectorGeometry (pt 0 0 0) (pt 0 (- 1) 1) (pt 1 (- 1) 1)
        = Some (s0, - (pi / 4), e0, e1, w0, w1, w2) \<and>
      human_to_baxter VectorGeometry ?c
          (pt 0 0 0) (pt 0 (- 1) 1) (pt 1 (- 1) 1) (pt 0 0 0) (pt 1 0 0) (pt 1 1 0) []
        = Some (?c, True, snd (check_angles ?c s0 (- (pi / 4)) e0 e1 w0 w1 w2 []))"
    unfolding s1' by (intro exI conjI)
  from first second show ?thesis by (rule conjI)
qed

subsection \<open>C6: the shoulder-rotation angle\<close>

text \<open>
  C6. When the vector functions return on the mimicked limb, the shoulder-rotation
  angle s0 before clamping is \<open>theta - pi / 4\<close>, where \<open>theta\<close> is the angle between
  \<open>p\<close> and the forward axis \<open>[-1, 0, 0]\<close>, and \<open>p\<close> is the projection of the upper
  arm (shoulder to elbow of the mimicked limb) with normal \<open>[0, 0, -1]\<close> and reference
  \<open>[-1, 0, 0]\<close>. This s0 is the first of the angles of \<^const>\<open>crane_arm_angles\<close>, and
  it is what \<^verbatim>\<open>human_to_baxter\<close> passes to \<^verbatim>\<open>check_angles\<close>.
\<close>

theorem shoulder_rotation_angle:
  assumes "make_vector_from_POINTS vo l_sh l_el = Some upperArm"
    and "make_vector_from_POINTS vo l_el l_ha = Some forearm"
    and "vector_projection_onto_plane vo upperArm [0, 0, - 1] [- 1, 0, 0] = Some p"
    and "angle_between_vectors vo p [- 1, 0, 0] = Some theta"
    and "angle_between_vectors vo upperArm p = Some t1"
    and "shortest_vector_from_point_to_vector vo l_ha upperArm forearm l_sh = Some n"
    and "angle_between_vectors vo n [0, 1, 0] = Some t2"
    and "angle_between_vectors vo upperArm forearm = Some t3"
  shows "\<exists>s1 e0 e1 w0 w1 w2.
           crane_arm_angles vo l_sh l_el l_ha
             = Some (theta - pi / 4, s1, e0, e1, w0, w1, w2) \<and>
           (\<forall>self r_sh r_el r_ha a upperArm2 forearm2 theta2.
              make_vector_from_POINTS vo r_sh r_el = Some upperArm2 \<and>
              make_vector_from_POINTS vo r_el r_ha = Some forearm2 \<and>
              angle_between_vectors vo upperArm2 forearm2 = Some theta2 \<longrightarrow>
              human_to_baxter vo self l_sh l_el l_ha r_sh r_el r_ha a =
                Some (self, theta2 > 0.8,
                      snd (check_angles self (theta - pi / 4) s1 e0 e1 w0 w1 w2 a)))"
proof -
  note c = crane_arm_angles_Some [OF assms]
  have "\<forall>self r_sh r_el r_ha a upperArm2 forearm2 theta2.
              make_vector_from_POINTS vo r_sh r_el = Some upperArm2 \<and>
              make_vector_from_POINTS vo r_el r_ha = Some forearm2 \<and>
              angle_between_vectors vo upperArm2 forearm2 = Some theta2 \<longrightarrow>
              human_to_baxter vo self l_sh l_el l_ha r_sh r_el r_ha a =
                Some (self, theta2 > 0.8,
                      snd (check_angles self (theta - pi / 4)
                             (if pt_y l_el > pt_y l_sh then t1 else - t1) t2 t3
                             (- 1.57) 0.00 (- 0.30) a))"
    using human_to_baxter_Some [OF c] by blast
  with c show ?thesis by blast
qed

text \<open>
  The theorem on the arm with the elbow above the shoulder, with the second limb bent at
  a right angle.
\<close>

theorem shoulder_rotation_angle_witness:
  "\<exists>s1 e0 e1 w0 w1 w2.
     crane_arm_angles VectorGeometry (pt 0 0 0) (pt 0 1 1) (pt 1 1 1)
       = Some (pi / 2 - pi / 4, s1, e0, e1, w0, w1, w2) \<and>
     human_to_baxter VectorGeometry (Crane_init baxter_right_limb)
         (pt 0 0 0) (pt 0 1 1) (pt 1 1 1) (pt 0 0 0) (pt 1 0 0) (pt 1 1 0) []
       = Some (Crane_init baxter_right_limb, True,
               snd (check_angles (Crane_init baxter_right_limb)
                      (pi / 2 - pi / 4) s1 e0 e1 w0 w1 w2 []))"
proof -
  let ?c = "Crane_init baxter_right_limb"
  from shoulder_rotation_angle [OF raised_arm_calls]
  obtain s1 e0 e1 w0 w1 w2 where
    c: "crane_arm_angles VectorGeometry (pt 0 0 0) (pt 0 1 1) (pt 1 1 1)
          = Some (pi / 2 - pi / 4, s1, e0, e1, w0, w1, w2)"
    and h: "\<forall>self r_sh r_el r_ha a upperArm2 forearm2 theta2.
              make_vector_from_POINTS VectorGeometry r_sh r_el = Some upperArm2 \<and>
              make_vector_from_POINTS VectorGeometry r_el r_ha = Some forearm2 \<and>
              angle_between_vectors VectorGeometry upperArm2 forearm2 = Some theta2 \<longrightarrow>
              human_to_baxter VectorGeometry self (pt 0 0 0) (pt 0 1 1) (pt 1 1 1)
                  r_sh r_el r_ha a =
                Some (self, theta2 > 0.8,
                      snd (check_angles self (pi / 2 - pi / 4) s1 e0 e1 w0 w1 w2 a))"
    by (elim exE conjE) (rule that)
  from h [rule_format, of "pt 0 0 0" "pt 1 0 0" "[1, 0, 0]" "pt 1 1 0" "[0, 1, 0]" "pi / 2"
      ?c "[]"] bent_limb pi_facts(8)
  have "human_to_baxter VectorGeometry ?c
          (pt 0 0 0) (pt 0 1 1) (pt 1 1 1) (pt 0 0 0) (pt 1 0 0) (pt 1 1 0) []
        = Some (?c, True, snd (check_angles ?c (pi / 2 - pi / 4) s1 e0 e1 w0 w1 w2 []))"
    by simp
  with c show ?thesis by (intro exI conjI)
qed

subsection \<open>C7: the gripper does not depend on the mimicked limb\<close>

text \<open>
  C7. Two runs on the same second-limb points, on any mimicked-limb points and in any
  controller states, that both return give the same gripper flag, and
  \<^verbatim>\<open>desired_joint_vals\<close> sends the same command in both.
\<close>

theorem gripper_independent_of_mimicked_limb:
  "(human_to_baxter vo self1 l_sh1 l_el1 l_ha1 r_sh r_el r_ha a1 = Some (self1', close1, a1') \<longrightarrow>
    human_to_baxter vo self2 l_sh2 l_el2 l_ha2 r_sh r_el r_ha a2 = Some (self2', close2, a2') \<longrightarrow>
    close1 = close2) \<and>
   (desired_joint_vals vo self1 l_sh1 l_el1 l_ha1 r_sh r_el r_ha = Some (new1, positions1) \<longrightarrow>
    desired_joint_vals vo self2 l_sh2 l_el2 l_ha2 r_sh r_el r_ha = Some (new2, positions2) \<longrightarrow>
    (\<exists>command. gripper new1 = gripper self1 @ [command] \<and>
                gripper new2 = gripper self2 @ [command]))"
proof (intro conjI impI)
  assume 1: "human_to_baxter vo self1 l_sh1 l_el1 l_ha1 r_sh r_el r_ha a1
               = Some (self1', close1, a1')"
    and 2: "human_to_baxter vo self2 l_sh2 l_el2 l_ha2 r_sh r_el r_ha a2
               = Some (self2', close2, a2')"
  from human_to_baxter_SomeD [OF 1] human_to_baxter_SomeD [OF 2]
  show "close1 = close2" by auto
next
  assume 1: "desired_joint_vals vo self1 l_sh1 l_el1 l_ha1 r_sh r_el r_ha
               = Some (new1, positions1)"
    and 2: "desired_joint_vals vo self2 l_sh2 l_el2 l_ha2 r_sh r_el r_ha
               = Some (new2, positions2)"
  from 1 obtain c1 g1 as1 where
    h1: "human_to_baxter vo self1 l_sh1 l_el1 l_ha1 r_sh r_el r_ha [] = Some (c1, g1, as1)"
    and n1: "new1 = c1\<lparr>gripper := gripper c1 @ [if g1 then Close else Open]\<rparr>"
    by (auto simp: desired_joint_vals_unfold split: option.splits)
  from 2 obtain c2 g2 as2 where
    h2: "human_to_baxter vo self2 l_sh2 l_el2 l_ha2 r_sh r_el r_ha [] = Some (c2, g2, as2)"
    and n2: "new2 = c2\<lparr>gripper := gripper c2 @ [if g2 then Close else Open]\<rparr>"
    by (auto simp: desired_joint_vals_unfold split: option.splits)
  from human_to_baxter_SomeD [OF h1] human_to_baxter_SomeD [OF h2]
  have "c1 = self1" "c2 = self2" "g1 = g2" by auto
  with n1 n2 show "\<exists>command. gripper new1 = gripper self1 @ [command] \<and>
                gripper new2 = gripper self2 @ [command]"
    by simp
qed

text \<open>
  The theorem on two different mimicked arms and the same bent second limb.
\<close>

theorem gripper_independent_of_mimicked_limb_witness:
  "(\<exists>a1' a2' close1 close2.
      human_to_baxter VectorGeometry (Crane_init baxter_right_limb)
          (pt 0 0 0) (pt 0 (- 1) 1) (pt 1 (- 1) 1) (pt 0 0 0) (pt 1 0 0) (pt 1 1 0) []
        = Some (Crane_init baxter_right_limb, close1, a1') \<and>
      human_to_baxter VectorGeometry (Crane_init baxter_right_limb)
          (pt 0 0 0) (pt (- 1) 0 0) (pt (- 1) 1 0) (pt 0 0 0) (pt 1 0 0) (pt 1 1 0) []
        = Some (Crane_init baxter_right_limb, close2, a2') \<and>
      close1 = close2) \<and>
   (\<exists>new1 new2 positions1 positions2 command.
      desired_joint_vals VectorGeometry (Crane_init baxter_right_limb)
          (pt 0 0 0) (pt 0 (- 1) 1) (pt 1 (- 1) 1) (pt 0 0 0) (pt 1 0 0) (pt 1 1 0)
        = Some (new1, positions1) \<and>
      desired_joint_vals VectorGeometry (Crane_init baxter_right_limb)
          (pt 0 0 0) (pt (- 1) 0 0) (pt (- 1) 1 0) (pt 0 0 0) (pt 1 0 0) (pt 1 1 0)
        = Some (new2, positions2) \<and>
      gripper new1 = gripper (Crane_init baxter_right_limb) @ [command] \<and>
      gripper new2 = gripper (Crane_init baxter_right_limb) @ [command])"
proof -
  note h = two_frames
  note d = desired_joint_vals_Some [OF lowered_arm bent_limb, of "Crane_init baxter_right_limb"]
    desired_joint_vals_Some [OF forward_arm bent_limb, of "Crane_init baxter_right_limb"]
  note t = gripper_independent_of_mimicked_limb
  from t [THEN conjunct1, rule_format, OF h] h
  have "\<exists>a1' a2' close1 close2.
      human_to_baxter VectorGeometry (Crane_init baxter_right_limb)
          (pt 0 0 0) (pt 0 (- 1) 1) (pt 1 (- 1) 1) (pt 0 0 0) (pt 1 0 0) (pt 1 1 0) []
        = Some (Crane_init baxter_right_limb, close1, a1') \<and>
      human_to_baxter VectorGeometry (Crane_init baxter_right_limb)
          (pt 0 0 0) (pt (- 1) 0 0) (pt (- 1) 1 0) (pt 0 0 0) (pt 1 0 0) (pt 1 1 0) []
        = Some (Crane_init baxter_right_limb, close2, a2') \<and>
      close1 = close2"
    by blast
  moreover from t [THEN conjunct2, rule_format, OF d] d
  have "\<exists>new1 new2 positions1 positions2 command.
      desired_joint_vals VectorGeometry (Crane_init baxter_right_limb)
          (pt 0 0 0) (pt 0 (- 1) 1) (pt 1 (- 1) 1) (pt 0 0 0) (pt 1 0 0) (pt 1 1 0)
        = Some (new1, positions1) \<and>
      desired_joint_vals VectorGeometry (Crane_init baxter_right_limb)
          (pt 0 0 0) (pt (- 1) 0 0) (pt (- 1) 1 0) (pt 0 0 0) (pt 1 0 0) (pt 1 1 0)
        = Some (new2, positions2) \<and>
      gripper new1 = gripper (Crane_init baxter_right_limb) @ [command] \<and>
      gripper new2 = gripper (Crane_init baxter_right_limb) @ [command]"
    by blast
  ultimately show ?thesis by (rule conjI)
qed

subsection \<open>C8: the pose mode\<close>




subsection \<open>C9: the configuration is never changed\<close>

text \<open>
  C9. In every state reached from construction by calls of
  \<^verbatim>\<open>desired_joint_vals\<close>, \<^verbatim>\<open>desired_pose_vals\<close>, \<^verbatim>\<open>human_to_baxter\<close> and
  \<^verbatim>\<open>check_angles\<close>, in any number and order and on any inputs, the fixed pose, the
  neutral position and the joint names are the ones set at construction.
\<close>

theorem configuration_unchanged:
  assumes "reachable vo right_limb self"
  shows "crane_l_angles self = crane_l_angles (Crane_init right_limb) \<and>
         neutral_position self = neutral_position (Crane_init right_limb) \<and>
         joint_names (arm self) = joint_names right_limb"
  using reachable_only_gripper [OF assms] by (auto simp: Crane_init_def)

text \<open>
  The theorem on the state after one call of \<^verbatim>\<open>desired_joint_vals\<close>.
\<close>

theorem configuration_unchanged_witness:
  "reachable VectorGeometry baxter_right_limb
     ((Crane_init baxter_right_limb)\<lparr>gripper := [Close]\<rparr>) \<and>
   crane_l_angles ((Crane_init baxter_right_limb)\<lparr>gripper := [Close]\<rparr>)
     = crane_l_angles (Crane_init baxter_right_limb) \<and>
   neutral_position ((Crane_init baxter_right_limb)\<lparr>gripper := [Close]\<rparr>)
     = neutral_position (Crane_init baxter_right_limb) \<and>
   joint_names (arm ((Crane_init baxter_right_limb)\<lparr>gripper := [Close]\<rparr>))
     = joint_names baxter_right_limb"
proof -
  have "desired_joint_vals VectorGeometry (Crane_init baxter_right_limb)
          (pt 0 0 0) (pt (- 1) 0 0) (pt (- 1) 1 0) (pt 0 0 0) (pt 1 0 0) (pt 1 1 0)
        = Some ((Crane_init baxter_right_limb)\<lparr>gripper := [Close]\<rparr>,
                crane_l_angles (Crane_init baxter_right_limb) ++
                dict (zip (joint_names (arm (Crane_init baxter_right_limb)))
                  (snd (check_angles (Crane_init baxter_right_limb) (- (pi / 4)) 0 pi (pi / 2)
                          (- 1.57) 0 (- 0.30) []))))"
    using desired_joint_vals_Some [OF forward_arm bent_limb, of "Crane_init baxter_right_limb"]
      pi_facts(8)
    by (simp add: Crane_init_def)
  then have r: "reachable VectorGeometry baxter_right_limb
     ((Crane_init baxter_right_limb)\<lparr>gripper := [Close]\<rparr>)"
    by (rule after_desired_joint_vals [OF constructed])
  from r configuration_unchanged [OF r] show ?thesis by (intro conjI) simp_all
qed

subsection \<open>C10: the seven reads are in range\<close>

text \<open>
  C10. \<^verbatim>\<open>check_angles\<close> extends the list it is given by exactly seven elements.
  \<^verbatim>\<open>desired_joint_vals\<close> raises exactly when \<^verbatim>\<open>human_to_baxter\<close> does on
  the empty list; when that returns, the list has length seven and each of the reads
  \<^verbatim>\<open>angles[0]\<close> to \<^verbatim>\<open>angles[6]\<close> yields an element.
\<close>

theorem check_angles_appends_seven:
  "length (snd (check_angles self s0 s1 e0 e1 w0 w1 w2 angles)) = length angles + 7 \<and>
   take (length angles) (snd (check_angles self s0 s1 e0 e1 w0 w1 w2 angles)) = angles \<and>
   (desired_joint_vals vo self left_shoulder left_elbow left_hand
        right_shoulder right_elbow right_hand = None
      \<longleftrightarrow> human_to_baxter vo self left_shoulder left_elbow left_hand
            right_shoulder right_elbow right_hand [] = None) \<and>
   (human_to_baxter vo self left_shoulder left_elbow left_hand
        right_shoulder right_elbow right_hand [] = Some (self', close, filled)
      \<longrightarrow> length filled = 7 \<and> (\<forall>i<7. index filled i = Some (filled ! i)))"
proof (intro conjI impI)
  show "length (snd (check_angles self s0 s1 e0 e1 w0 w1 w2 angles)) = length angles + 7"
    by (simp add: check_angles_snd)
  show "take (length angles) (snd (check_angles self s0 s1 e0 e1 w0 w1 w2 angles)) = angles"
    by (simp add: check_angles_snd)
  show "desired_joint_vals vo self left_shoulder left_elbow left_hand
        right_shoulder right_elbow right_hand = None
      \<longleftrightarrow> human_to_baxter vo self left_shoulder left_elbow left_hand
            right_shoulder right_elbow right_hand [] = None"
    by (simp add: desired_joint_vals_unfold split: option.splits)
next
  assume h: "human_to_baxter vo self left_shoulder left_elbow left_hand
        right_shoulder right_elbow right_hand [] = Some (self', close, filled)"
  from human_to_baxter_length [OF h] show len: "length filled = 7" by simp
  then show "\<forall>i<7. index filled i = Some (filled ! i)"
    by (simp add: index_def)
qed

text \<open>
  The theorem on the arm pointing forward and the bent second limb.
\<close>

theorem check_angles_appends_seven_witness:
  "length (snd (check_angles (Crane_init baxter_right_limb) 0 0 0 0 0 0 0 [])) = 7 \<and>
   human_to_baxter VectorGeometry (Crane_init baxter_right_limb)
       (pt 0 0 0) (pt (- 1) 0 0) (pt (- 1) 1 0) (pt 0 0 0) (pt 1 0 0) (pt 1 1 0) []
     = Some (Crane_init baxter_right_limb, True, [- 0.25, 0, pi, pi / 2, - 1.57, 0, - 0.30]) \<and>
   length [- 0.25, 0, pi, pi / 2, - 1.57, 0, - 0.30] = 7 \<and>
   index [- 0.25, 0, pi, pi / 2, - 1.57, 0, - 0.30] 0 = Some (- 0.25) \<and>
   index [- 0.25, 0, pi, pi / 2, - 1.57, 0, - 0.30] 6 = Some (- 0.30) \<and>
   desired_joint_vals VectorGeometry (Crane_init baxter_right_limb)
       (pt 0 0 0) (pt (- 1) 0 0) (pt (- 1) 1 0) (pt 0 0 0) (pt 1 0 0) (pt 1 1 0) \<noteq> None"
proof -
  note t = check_angles_appends_seven [of "Crane_init baxter_right_limb" 0 0 0 0 0 0 0 "[]"
      VectorGeometry "pt 0 0 0" "pt (- 1) 0 0" "pt (- 1) 1 0" "pt 0 0 0" "pt 1 0 0" "pt 1 1 0"
      "Crane_init baxter_right_limb" True "[- 0.25, 0, pi, pi / 2, - 1.57, 0, - 0.30]"]
  note h = two_frames(2)
  from t h have "\<forall>i<7. index [- 0.25, 0, pi, pi / 2, - 1.57, 0, - 0.30] i
      = Some ([- 0.25, 0, pi, pi / 2, - 1.57, 0, - 0.30] ! i)"
    by blast
  then have "index [- 0.25, 0, pi, pi / 2, - 1.57, 0, - 0.30] 0 = Some (- 0.25)"
    "index [- 0.25, 0, pi, pi / 2, - 1.57, 0, - 0.30] 6 = Some (- 0.30)"
    by simp_all
  moreover from t h have "desired_joint_vals VectorGeometry (Crane_init baxter_right_limb)
       (pt 0 0 0) (pt (- 1) 0 0) (pt (- 1) 1 0) (pt 0 0 0) (pt 1 0 0) (pt 1 1 0) \<noteq> None"
    by simp
  moreover from t have "length (snd (check_angles (Crane_init baxter_right_limb) 0 0 0 0 0 0 0 [])) = 7"
    by simp
  ultimately show ?thesis using h by simp
qed

end
